theory Spec2Isabelle
  imports Main "HOL-Library.Word"
begin

section \<open>JavaScript strings\<close>

text \<open>
  A JavaScript string is a sequence of 16-bit code units. The functions of
  \<^verbatim>\<open>String.prototype\<close> that the program calls (\<^verbatim>\<open>split\<close>, \<^verbatim>\<open>startsWith\<close>,
  \<^verbatim>\<open>trim\<close>) work on code units, and the user-facing messages of the program are not
  ASCII, so strings are lists of 16-bit words. \<open>js\<close> embeds an ASCII literal.
\<close>

type_synonym jschar = "16 word"
type_synonym jsstring = "jschar list"

definition js :: "string \<Rightarrow> jsstring" where
  "js s = map of_char s"

definition comma :: jschar where
  "comma = 0x2C"

text \<open>
  A value of type \<^verbatim>\<open>string | undefined\<close> (or \<^verbatim>\<open>string | null\<close>) is a
  \<open>jsstring option\<close>. It is falsy when it is absent or the empty string.
\<close>

definition falsy :: "jsstring option \<Rightarrow> bool" where
  "falsy v = (case v of None \<Rightarrow> True | Some s \<Rightarrow> s = [])"

text \<open>Interpolation into a template literal: \<^verbatim>\<open>`${v}`\<close>.\<close>

definition str_of :: "jsstring option \<Rightarrow> jsstring" where
  "str_of v = (case v of None \<Rightarrow> js ''undefined'' | Some s \<Rightarrow> s)"

text \<open>\<^verbatim>\<open>s.startsWith(p)\<close>\<close>

definition startsWith :: "jsstring \<Rightarrow> jsstring \<Rightarrow> bool" where
  "startsWith s p = (take (length p) s = p)"

text \<open>
  \<^verbatim>\<open>s.split(sep)\<close> for a separator of one code unit: the segments between the
  occurrences of the separator, in order. The array is never empty
  (\<^verbatim>\<open>''.split(',')\<close> is \<^verbatim>\<open>['']\<close>).
\<close>

fun split_on :: "jschar \<Rightarrow> jsstring \<Rightarrow> jsstring list" where
  "split_on sep [] = [[]]"
| "split_on sep (c # cs) =
     (if c = sep then [] # split_on sep cs
      else (case split_on sep cs of
              [] \<Rightarrow> [[c]]
            | seg # segs \<Rightarrow> (c # seg) # segs))"

text \<open>\<^verbatim>\<open>xs[i]\<close> on an array: \<^verbatim>\<open>undefined\<close> out of range.\<close>

definition at_index :: "'a list \<Rightarrow> nat \<Rightarrow> 'a option" where
  "at_index xs i = (if i < length xs then Some (xs ! i) else None)"

text \<open>
  The code units that \<^verbatim>\<open>trim\<close> strips: ECMAScript's WhiteSpace and LineTerminator
  (TAB, LF, VT, FF, CR, SP, NBSP, U+1680, U+2000 to U+200A, U+2028, U+2029, U+202F,
  U+205F, U+3000, U+FEFF). All of them are single code units.
\<close>

definition js_whitespace :: "jschar \<Rightarrow> bool" where
  "js_whitespace c =
     (c \<in> set [0x09, 0x0A, 0x0B, 0x0C, 0x0D, 0x20, 0xA0, 0x1680,
               0x2000, 0x2001, 0x2002, 0x2003, 0x2004, 0x2005, 0x2006, 0x2007,
               0x2008, 0x2009, 0x200A, 0x2028, 0x2029, 0x202F, 0x205F, 0x3000,
               0xFEFF])"

definition trim :: "jsstring \<Rightarrow> jsstring" where
  "trim s = rev (dropWhile js_whitespace (rev (dropWhile js_whitespace s)))"

section \<open>services/geminiService.ts\<close>

subsection \<open>Data\<close>

text \<open>
  A \<^verbatim>\<open>File\<close> as the program uses it: its \<^verbatim>\<open>type\<close>, and what a
  \<^verbatim>\<open>FileReader\<close> holds in \<^verbatim>\<open>result\<close> when \<^verbatim>\<open>loadend\<close> fires after
  \<^verbatim>\<open>readAsDataURL(file)\<close>: \<^verbatim>\<open>null\<close> (\<open>None\<close>) when the read failed, a string otherwise.
  The browser, not this program, computes that string, so it is data of the model.
\<close>

record File =
  ftype :: jsstring
  reader_result :: "jsstring option"

text \<open>
  The types of the API's library, as the program reads and writes them. Every property
  of these types is optional in the library (\<^verbatim>\<open>mimeType?: string\<close>,
  \<^verbatim>\<open>data?: string\<close>, \<^verbatim>\<open>inlineData?: Blob\<close>, \<^verbatim>\<open>candidates?: Candidate[]\<close>, ...),
  so every field is an option: \<open>None\<close> is \<^verbatim>\<open>undefined\<close>. The program writes
  \<^verbatim>\<open>mimeType\<close> always (\<^verbatim>\<open>file.type\<close>) and can itself write an undefined
  \<^verbatim>\<open>data\<close> (\<^verbatim>\<open>split(',')[1]\<close> of a string without a comma); what a response
  carries is up to the API.
\<close>

record Blob =
  data :: "jsstring option"
  mimeType :: "jsstring option"

record Part =
  inlineData :: "Blob option"
  part_text :: "jsstring option"

record Content =
  parts :: "Part list option"

record Candidate =
  content :: "Content option"

record GenerateContentResponse =
  candidates :: "Candidate list option"

datatype Modality = IMAGE | TEXT

record GenerateContentParameters =
  model :: jsstring
  contents :: Content
  responseModalities :: "Modality list"

text \<open>
  A thrown exception with its \<^verbatim>\<open>message\<close>: an \<^verbatim>\<open>Error\<close> the program or the
  API's library creates, or the \<^verbatim>\<open>TypeError\<close> the engine throws when the program
  reads a property of \<^verbatim>\<open>undefined\<close>.
\<close>

datatype js_error = Error (message: jsstring) | TypeError (message: jsstring)

text \<open>
  What the program touches outside itself: the \<^verbatim>\<open>API_KEY\<close> variable of the
  environment, and the remote call \<^verbatim>\<open>ai.models.generateContent\<close>, whose promise is
  rejected with an error (\<open>Inl\<close>) or fulfilled with a response (\<open>Inr\<close>). The
  third field is the message the engine gives the \<^verbatim>\<open>TypeError\<close> of a read of a
  property of \<^verbatim>\<open>undefined\<close>; its wording differs between engines.
\<close>

record env =
  API_KEY :: "jsstring option"
  generateContent :: "GenerateContentParameters \<Rightarrow> js_error + GenerateContentResponse"
  undefined_read_message :: jsstring

text \<open>The effects of a run, in the order they happen.\<close>

datatype effect =
  ReadAsDataURL File
| CallGenerateContent GenerateContentParameters

fun is_request :: "effect \<Rightarrow> bool" where
  "is_request (CallGenerateContent _) = True"
| "is_request (ReadAsDataURL _) = False"

fun requests_of :: "effect list \<Rightarrow> GenerateContentParameters list" where
  "requests_of [] = []"
| "requests_of (CallGenerateContent r # es) = r # requests_of es"
| "requests_of (ReadAsDataURL _ # es) = requests_of es"

subsection \<open>fileToGenerativePart\<close>

text \<open>
  The promise built around the reader has a \<^verbatim>\<open>resolve\<close> and no \<^verbatim>\<open>reject\<close>, and
  the function has no \<^verbatim>\<open>throw\<close>: it is a total function to a \<open>Part\<close>, with the one
  effect of starting the read.
\<close>

definition base64EncodedData :: "File \<Rightarrow> jsstring option" where
  "base64EncodedData file =
     (if \<not> falsy (reader_result file)
      then at_index (split_on comma (the (reader_result file))) 1
      else Some [])"

definition fileToGenerativePart :: "File \<Rightarrow> effect list \<times> Part" where
  "fileToGenerativePart file =
     ([ReadAsDataURL file],
      \<lparr>inlineData = Some \<lparr>data = base64EncodedData file, mimeType = Some (ftype file)\<rparr>,
       part_text = None\<rparr>)"

subsection \<open>processImage\<close>

definition api_key_message :: jsstring where
  "api_key_message = js ''API_KEY environment variable not set''"

definition no_image_message :: jsstring where
  "no_image_message =
     js ''API neatgrieza att'' @ [0x0113] @ js ''lu. L'' @ [0x016B] @ js ''dzu, m''
     @ [0x0113] @ [0x0123] @ js ''iniet v'' @ [0x0113] @ js ''lreiz ar citu att''
     @ [0x0113] @ js ''lu vai uzvedni.''"

definition model_name :: jsstring where
  "model_name = js ''gemini-2.5-flash-image-preview''"

text \<open>\<^verbatim>\<open>response.candidates?.[0]?.content?.parts || []\<close>\<close>

definition response_parts :: "GenerateContentResponse \<Rightarrow> Part list" where
  "response_parts response =
     (case candidates response of
        None \<Rightarrow> []
      | Some [] \<Rightarrow> []
      | Some (c # _) \<Rightarrow>
          (case content c of
             None \<Rightarrow> []
           | Some ct \<Rightarrow> (case parts ct of None \<Rightarrow> [] | Some ps \<Rightarrow> ps)))"

definition data_uri :: "Blob \<Rightarrow> jsstring" where
  "data_uri b = js ''data:'' @ str_of (mimeType b) @ js '';base64,'' @ str_of (data b)"

text \<open>
  The \<^verbatim>\<open>for\<close> loop over the parts, and the \<^verbatim>\<open>throw\<close> after it. The test
  \<^verbatim>\<open>part.inlineData && part.inlineData.mimeType.startsWith('image/')\<close> guards
  \<^verbatim>\<open>inlineData\<close> and not \<^verbatim>\<open>mimeType\<close>: on a part that has
  \<^verbatim>\<open>inlineData\<close> without a \<^verbatim>\<open>mimeType\<close> the call of \<^verbatim>\<open>startsWith\<close> is a read
  of a property of \<^verbatim>\<open>undefined\<close>, and the engine throws a \<^verbatim>\<open>TypeError\<close>, whose
  message is the first argument.
\<close>

fun scan_parts :: "jsstring \<Rightarrow> Part list \<Rightarrow> js_error + jsstring" where
  "scan_parts tm [] = Inl (Error no_image_message)"
| "scan_parts tm (p # ps) =
     (case inlineData p of
        None \<Rightarrow> scan_parts tm ps
      | Some b \<Rightarrow>
          (case mimeType b of
             None \<Rightarrow> Inl (TypeError tm)
           | Some m \<Rightarrow>
               if startsWith m (js ''image/'') then Inr (data_uri b)
               else scan_parts tm ps))"

definition processImage ::
  "env \<Rightarrow> jsstring \<Rightarrow> File \<Rightarrow> File option \<Rightarrow> effect list \<times> (js_error + jsstring)" where
  "processImage e prompt originalImage backgroundImage =
     (if falsy (API_KEY e) then ([], Inl (Error api_key_message))
      else
        let (fx1, originalImagePart) = fileToGenerativePart originalImage;
            ps1 = [originalImagePart];
            (fx2, ps2) =
              (case backgroundImage of
                 None \<Rightarrow> (fx1, ps1)
               | Some bg \<Rightarrow>
                   let (fx, backgroundImagePart) = fileToGenerativePart bg
                   in (fx1 @ fx, ps1 @ [backgroundImagePart]));
            ps3 = ps2 @ [\<lparr>inlineData = None, part_text = Some prompt\<rparr>];
            request = \<lparr>model = model_name,
                       contents = \<lparr>parts = Some ps3\<rparr>,
                       responseModalities = [IMAGE, TEXT]\<rparr>
        in (fx2 @ [CallGenerateContent request],
            case generateContent e request of
              Inl err \<Rightarrow> Inl err
            | Inr response \<Rightarrow>
                scan_parts (undefined_read_message e) (response_parts response)))"

section \<open>App.tsx\<close>

subsection \<open>State\<close>

text \<open>
  Modelled from the spec: the enum \<^verbatim>\<open>OperationMode\<close> is declared in
  \<^verbatim>\<open>types.ts\<close>, which is not among the source files. The spec speaks of "three
  background-editing modes", and \<^verbatim>\<open>App.tsx\<close> names exactly these three members: in
  the \<^verbatim>\<open>switch\<close> of \<^verbatim>\<open>handleProcessImage\<close> and in the three mode buttons.
\<close>

datatype OperationMode = TRANSPARENT | AI_BACKGROUND | CUSTOM_BACKGROUND

text \<open>The seven \<^verbatim>\<open>useState\<close> cells of the component \<^verbatim>\<open>App\<close>.\<close>

record app_state =
  mode :: OperationMode
  originalImage :: "File option"
  backgroundImage :: "File option"
  prompt :: jsstring
  resultImage :: "jsstring option"
  isLoading :: bool
  error :: "jsstring option"

definition initial_state :: app_state where
  "initial_state =
     \<lparr>mode = TRANSPARENT, originalImage = None, backgroundImage = None, prompt = [],
      resultImage = None, isLoading = False, error = None\<rparr>"

subsection \<open>Messages and prompts\<close>

definition no_original_message :: jsstring where
  "no_original_message =
     js ''L'' @ [0x016B] @ js ''dzu, aug'' @ [0x0161] @ js ''upiel'' @ [0x0101]
     @ js ''d'' @ [0x0113] @ js ''jiet s'' @ [0x0101] @ js ''kotn'' @ [0x0113]
     @ js ''jo att'' @ [0x0113] @ js ''lu.''"

definition no_prompt_message :: jsstring where
  "no_prompt_message =
     js ''L'' @ [0x016B] @ js ''dzu, ievadiet aprakstu jaunajam fonam.''"

definition no_background_message :: jsstring where
  "no_background_message =
     js ''L'' @ [0x016B] @ js ''dzu, aug'' @ [0x0161] @ js ''upiel'' @ [0x0101]
     @ js ''d'' @ [0x0113] @ js ''jiet fona att'' @ [0x0113] @ js ''lu.''"

definition fallback_message :: jsstring where
  "fallback_message =
     js ''Notika neparedz'' @ [0x0113] @ js ''ta k'' @ [0x013C] @ [0x016B] @ js ''da.''"

definition transparent_prompt :: jsstring where
  "transparent_prompt =
     js ''Isolate the main subject from the image and make the background transparent. ''
     @ js ''The output should be a PNG image with a transparent background.''"

definition ai_background_prompt :: "jsstring \<Rightarrow> jsstring" where
  "ai_background_prompt p =
     js ''Replace the background of the image with the following scene: '' @ p
     @ js ''. Keep the main subject from the original image.''"

definition custom_background_prompt :: jsstring where
  "custom_background_prompt =
     js ''Take the main subject from the first image and place it realistically onto ''
     @ js ''the background provided in the second image. Blend the subject with the ''
     @ js ''new background, matching lighting and perspective.''"

subsection \<open>handleProcessImage\<close>

text \<open>
  \<^verbatim>\<open>handleProcessImage\<close> is an \<^verbatim>\<open>async\<close> function with one \<^verbatim>\<open>await\<close>. Up to
  the \<^verbatim>\<open>await\<close> it runs inside the click: \<open>handle_start\<close> is that part, and returns
  the state after its setters together with the arguments of the call of
  \<^verbatim>\<open>processImage\<close> it makes, if it makes one. \<open>handle_settle\<close> is the rest, the
  \<^verbatim>\<open>try\<close>/\<^verbatim>\<open>catch\<close>/\<^verbatim>\<open>finally\<close> around the awaited promise: it runs when the
  promise settles, on the state of that moment, and only through setters.
\<close>

type_synonym call = "jsstring \<times> File \<times> File option"

definition handle_start :: "app_state \<Rightarrow> app_state \<times> call option" where
  "handle_start s =
     (case originalImage s of
        None \<Rightarrow> (s\<lparr>error := Some no_original_message\<rparr>, None)
      | Some orig \<Rightarrow>
          let s1 = s\<lparr>isLoading := True, error := None, resultImage := None\<rparr> in
          (case mode s of
             TRANSPARENT \<Rightarrow> (s1, Some (transparent_prompt, orig, None))
           | AI_BACKGROUND \<Rightarrow>
               if trim (prompt s) = []
               then (s1\<lparr>error := Some no_prompt_message, isLoading := False\<rparr>, None)
               else (s1, Some (ai_background_prompt (prompt s), orig, None))
           | CUSTOM_BACKGROUND \<Rightarrow>
               (case backgroundImage s of
                  None \<Rightarrow>
                    (s1\<lparr>error := Some no_background_message, isLoading := False\<rparr>, None)
                | Some bg \<Rightarrow> (s1, Some (custom_background_prompt, orig, Some bg)))))"

text \<open>
  \<^verbatim>\<open>e.message || '...'\<close>: the fallback replaces an empty message. The
  \<^verbatim>\<open>console.error(e)\<close> of the \<^verbatim>\<open>catch\<close> changes nothing the component holds or
  shows and is left out.
\<close>

definition shown_message :: "js_error \<Rightarrow> jsstring" where
  "shown_message err = (if message err = [] then fallback_message else message err)"

definition handle_settle :: "js_error + jsstring \<Rightarrow> app_state \<Rightarrow> app_state" where
  "handle_settle r s =
     (case r of
        Inr result \<Rightarrow> s\<lparr>resultImage := Some result, isLoading := False\<rparr>
      | Inl err \<Rightarrow> s\<lparr>error := Some (shown_message err), isLoading := False\<rparr>)"

text \<open>A whole run, with nothing else happening between the click and the answer.\<close>

definition handleProcessImage :: "env \<Rightarrow> app_state \<Rightarrow> app_state \<times> effect list" where
  "handleProcessImage e s =
     (case handle_start s of
        (s1, None) \<Rightarrow> (s1, [])
      | (s1, Some (p, orig, bg)) \<Rightarrow>
          let (fx, r) = processImage e p orig bg in (handle_settle r s1, fx))"

definition isProcessButtonDisabled :: "app_state \<Rightarrow> bool" where
  "isProcessButtonDisabled s = (originalImage s = None \<or> isLoading s)"

subsection \<open>The component as a transition system\<close>

text \<open>
  What can happen to the rendered component: the handlers its elements are wired to,
  each enabled when its element is rendered and not disabled, and the settling of a
  call of \<^verbatim>\<open>processImage\<close> that is in flight. The state of the system is the
  component's state and the calls in flight.
\<close>

record ui =
  view :: app_state
  in_flight :: "call list"

datatype event =
  UploadOriginal File
| PickMode OperationMode
| TypePrompt jsstring
| UploadBackground File
| ClickProcess
| Settle nat

fun step :: "env \<Rightarrow> event \<Rightarrow> ui \<Rightarrow> ui option" where
  "step e (UploadOriginal f) u = Some (u\<lparr>view := (view u)\<lparr>originalImage := Some f\<rparr>\<rparr>)"
| "step e (PickMode m) u = Some (u\<lparr>view := (view u)\<lparr>mode := m\<rparr>\<rparr>)"
| "step e (TypePrompt p) u =
     (if mode (view u) = AI_BACKGROUND
      then Some (u\<lparr>view := (view u)\<lparr>prompt := p\<rparr>\<rparr>) else None)"
| "step e (UploadBackground f) u =
     (if mode (view u) = CUSTOM_BACKGROUND
      then Some (u\<lparr>view := (view u)\<lparr>backgroundImage := Some f\<rparr>\<rparr>) else None)"
| "step e ClickProcess u =
     (if isProcessButtonDisabled (view u) then None
      else (case handle_start (view u) of
              (s1, c) \<Rightarrow>
                Some \<lparr>view = s1,
                      in_flight = in_flight u @ (case c of None \<Rightarrow> [] | Some x \<Rightarrow> [x])\<rparr>))"
| "step e (Settle i) u =
     (if i < length (in_flight u)
      then (case in_flight u ! i of
              (p, orig, bg) \<Rightarrow>
                Some \<lparr>view = handle_settle (snd (processImage e p orig bg)) (view u),
                      in_flight = take i (in_flight u) @ drop (Suc i) (in_flight u)\<rparr>)
      else None)"

fun run :: "env \<Rightarrow> event list \<Rightarrow> ui \<Rightarrow> ui option" where
  "run e [] u = Some u"
| "run e (ev # evs) u = (case step e ev u of None \<Rightarrow> None | Some u' \<Rightarrow> run e evs u')"

definition initial_ui :: ui where
  "initial_ui = \<lparr>view = initial_state, in_flight = []\<rparr>"

section \<open>Notions of the specification\<close>

text \<open>
  The text after the first comma of a string, and the shape of what
  \<^verbatim>\<open>readAsDataURL\<close> produces: \<^verbatim>\<open>data:<type>;base64,<payload></\<close>, where the
  payload after the first comma is base64 text.
\<close>

definition after_first_comma :: "jsstring \<Rightarrow> jsstring" where
  "after_first_comma r = drop 1 (dropWhile (\<lambda>c. c \<noteq> comma) r)"

definition base64_char :: "jschar \<Rightarrow> bool" where
  "base64_char c =
     (c \<in> set (js ''ABCDEFGHIJKLMNOPQRSTUVWXYZabcdefghijklmnopqrstuvwxyz0123456789+/=''))"

definition is_base64_data_url :: "jsstring \<Rightarrow> bool" where
  "is_base64_data_url r =
     (startsWith r (js ''data:'') \<and> comma \<in> set r
      \<and> list_all base64_char (after_first_comma r))"

text \<open>
  The request a call of \<^verbatim>\<open>processImage\<close> is expected to send, the parts of a
  response that count as images, and the parts that have \<^verbatim>\<open>inlineData\<close> without a
  \<^verbatim>\<open>mimeType\<close>.
\<close>

definition the_request :: "jsstring \<Rightarrow> File \<Rightarrow> File option \<Rightarrow> GenerateContentParameters" where
  "the_request p orig bg =
     \<lparr>model = model_name,
      contents = \<lparr>parts = Some ([snd (fileToGenerativePart orig)]
                    @ (case bg of None \<Rightarrow> [] | Some b \<Rightarrow> [snd (fileToGenerativePart b)])
                    @ [\<lparr>inlineData = None, part_text = Some p\<rparr>])\<rparr>,
      responseModalities = [IMAGE, TEXT]\<rparr>"

definition is_image_part :: "Part \<Rightarrow> bool" where
  "is_image_part q =
     (case inlineData q of
        None \<Rightarrow> False
      | Some b \<Rightarrow>
          (case mimeType b of None \<Rightarrow> False | Some m \<Rightarrow> startsWith m (js ''image/'')))"

definition lacks_mimeType :: "Part \<Rightarrow> bool" where
  "lacks_mimeType q = (case inlineData q of None \<Rightarrow> False | Some b \<Rightarrow> mimeType b = None)"

text \<open>
  The invariant of the component as a transition system: at most one call in flight,
  the loading flag set exactly while there is one, and no result image shown while
  there is one.
\<close>

definition single_flight :: "ui \<Rightarrow> bool" where
  "single_flight u =
     (length (in_flight u) \<le> 1
      \<and> isLoading (view u) = (in_flight u \<noteq> [])
      \<and> (in_flight u = [] \<or> resultImage (view u) = None))"

section \<open>Example inputs\<close>

definition png_file :: File where
  "png_file = \<lparr>ftype = js ''image/png'',
               reader_result = Some (js ''data:image/png;base64,QUJD'')\<rparr>"

definition unreadable_file :: File where
  "unreadable_file = \<lparr>ftype = js ''image/png'', reader_result = None\<rparr>"

definition answering ::
  "js_error + GenerateContentResponse \<Rightarrow> GenerateContentParameters
   \<Rightarrow> js_error + GenerateContentResponse" where
  "answering answer request = answer"

definition env_with_key :: "js_error + GenerateContentResponse \<Rightarrow> env" where
  "env_with_key answer =
     \<lparr>API_KEY = Some (js ''key''), generateContent = answering answer,
      undefined_read_message = js ''part.inlineData.mimeType is undefined''\<rparr>"

definition env_without_key :: env where
  "env_without_key =
     \<lparr>API_KEY = None, generateContent = answering (Inl (Error (js ''unreachable''))),
      undefined_read_message = js ''part.inlineData.mimeType is undefined''\<rparr>"

definition jpeg_file :: File where
  "jpeg_file = \<lparr>ftype = js ''image/jpeg'',
                reader_result = Some (js ''data:image/jpeg;base64,REVG'')\<rparr>"

definition response_of_parts :: "Part list \<Rightarrow> GenerateContentResponse" where
  "response_of_parts ps = \<lparr>candidates = Some [\<lparr>content = Some \<lparr>parts = Some ps\<rparr>\<rparr>]\<rparr>"

definition text_only_part :: Part where
  "text_only_part = \<lparr>inlineData = None, part_text = Some (js ''Here you go'')\<rparr>"

definition audio_part :: Part where
  "audio_part =
     \<lparr>inlineData = Some \<lparr>data = Some (js ''T0dH''), mimeType = Some (js ''audio/ogg'')\<rparr>,
      part_text = None\<rparr>"

definition untyped_part :: Part where
  "untyped_part =
     \<lparr>inlineData = Some \<lparr>data = Some (js ''T0dH''), mimeType = None\<rparr>, part_text = None\<rparr>"

definition png_part :: Part where
  "png_part =
     \<lparr>inlineData = Some \<lparr>data = Some (js ''QUJD''), mimeType = Some (js ''image/png'')\<rparr>,
      part_text = None\<rparr>"

definition jpeg_part :: Part where
  "jpeg_part =
     \<lparr>inlineData = Some \<lparr>data = Some (js ''REVG''), mimeType = Some (js ''image/jpeg'')\<rparr>,
      part_text = None\<rparr>"

definition ready_state :: app_state where
  "ready_state = initial_state\<lparr>originalImage := Some png_file\<rparr>"

definition loading_ui :: ui where
  "loading_ui =
     \<lparr>view = ready_state\<lparr>isLoading := True, error := None, resultImage := None\<rparr>,
      in_flight = [(transparent_prompt, png_file, None)]\<rparr>"

section \<open>Properties of fileToGenerativePart\<close>

lemma split_on_not_Nil: "split_on sep s \<noteq> []"
  by (induction s) (auto split: list.splits)

lemma split_on_no_sep: "sep \<notin> set s \<Longrightarrow> split_on sep s = [s]"
  by (induction s) auto

lemma hd_split_on: "hd (split_on sep s) = takeWhile (\<lambda>c. c \<noteq> sep) s"
  by (induction s) (auto simp: split_on_not_Nil split: list.splits)

lemma split_on_append:
  "sep \<notin> set xs \<Longrightarrow> split_on sep (xs @ sep # ys) = xs # split_on sep ys"
  by (induction xs) auto

lemma split_on_second:
  assumes "sep \<in> set s"
  shows "at_index (split_on sep s) (Suc 0)
         = Some (takeWhile (\<lambda>c. c \<noteq> sep) (drop (Suc 0) (dropWhile (\<lambda>c. c \<noteq> sep) s)))"
proof -
  let ?h = "takeWhile (\<lambda>c. c \<noteq> sep) s"
  let ?d = "dropWhile (\<lambda>c. c \<noteq> sep) s"
  from assms have "?d \<noteq> []" by simp
  then obtain x rest where d: "?d = x # rest" by (cases ?d) auto
  have x: "x = sep"
    using hd_dropWhile [of "\<lambda>c. c \<noteq> sep" s] d by simp
  have h: "sep \<notin> set ?h" by (auto dest: set_takeWhileD)
  have s: "?h @ sep # rest = s"
    using takeWhile_dropWhile_id [of "\<lambda>c. c \<noteq> sep" s] d x by simp
  have "split_on sep (?h @ sep # rest) = ?h # split_on sep rest"
    using h by (rule split_on_append)
  then have sp: "split_on sep s = ?h # split_on sep rest" by (simp only: s)
  obtain seg segs where ss: "split_on sep rest = seg # segs"
    using split_on_not_Nil [of sep rest] by (cases "split_on sep rest") auto
  have seg: "seg = takeWhile (\<lambda>c. c \<noteq> sep) rest"
    using hd_split_on [of sep rest] ss by simp
  have "at_index (split_on sep s) (Suc 0) = Some seg"
    by (simp add: at_index_def sp ss)
  then show ?thesis by (simp add: seg d)
qed

lemma base64_char_not_comma: "base64_char c \<Longrightarrow> c \<noteq> comma"
  by (auto simp: base64_char_def js_def comma_def)

lemma base64EncodedData_falsy:
  "falsy (reader_result f) \<Longrightarrow> base64EncodedData f = Some []"
  by (simp add: base64EncodedData_def)

lemma base64EncodedData_string:
  assumes "reader_result f = Some r" and "r \<noteq> []"
  shows "base64EncodedData f
         = (if comma \<in> set r
            then Some (takeWhile (\<lambda>c. c \<noteq> comma) (after_first_comma r))
            else None)"
proof (cases "comma \<in> set r")
  case True
  then show ?thesis
    using assms
    by (simp add: base64EncodedData_def falsy_def split_on_second after_first_comma_def)
next
  case False
  then show ?thesis
    using assms
    by (simp add: base64EncodedData_def falsy_def split_on_no_sep at_index_def)
qed

lemma base64EncodedData_data_url:
  assumes "reader_result f = Some r" and "r \<noteq> []" and "is_base64_data_url r"
  shows "base64EncodedData f = Some (after_first_comma r)"
proof -
  from assms(3) have c: "comma \<in> set r" and b: "list_all base64_char (after_first_comma r)"
    by (simp_all add: is_base64_data_url_def)
  from b have "\<forall>x \<in> set (after_first_comma r). x \<noteq> comma"
    using base64_char_not_comma by (auto simp: list_all_iff)
  then have "takeWhile (\<lambda>c. c \<noteq> comma) (after_first_comma r) = after_first_comma r"
    by simp
  with c show ?thesis
    by (simp only: base64EncodedData_string [OF assms(1,2)] if_True)
qed

text \<open>
  C10. fileToGenerativePart has no rejecting path (it is a total function to a Part),
  and on an empty read, where the reader's result at loadend is null or the empty
  string, the Part it resolves with has inlineData.data equal to the empty string and
  mimeType equal to the file's type. For a non-empty result that is a base64 data URL,
  data is the text after the first comma. In general, for a non-empty result, data is
  the segment between the first and the second comma, and undefined when the result
  has no comma.
\<close>

theorem fileToGenerativePart_data:
  "(reader_result f = None \<or> reader_result f = Some [] \<longrightarrow>
      snd (fileToGenerativePart f)
      = \<lparr>inlineData = Some \<lparr>data = Some [], mimeType = Some (ftype f)\<rparr>, part_text = None\<rparr>)
   \<and> (reader_result f = Some r \<and> r \<noteq> [] \<and> is_base64_data_url r \<longrightarrow>
      snd (fileToGenerativePart f)
      = \<lparr>inlineData = Some \<lparr>data = Some (after_first_comma r), mimeType = Some (ftype f)\<rparr>,
         part_text = None\<rparr>)
   \<and> (reader_result f = Some r \<and> r \<noteq> [] \<longrightarrow>
      snd (fileToGenerativePart f)
      = \<lparr>inlineData =
           Some \<lparr>data = (if comma \<in> set r
                          then Some (takeWhile (\<lambda>c. c \<noteq> comma) (after_first_comma r))
                          else None),
                 mimeType = Some (ftype f)\<rparr>,
         part_text = None\<rparr>)"
proof (intro conjI impI)
  assume "reader_result f = None \<or> reader_result f = Some []"
  then have "falsy (reader_result f)" by (auto simp: falsy_def)
  then show "snd (fileToGenerativePart f)
      = \<lparr>inlineData = Some \<lparr>data = Some [], mimeType = Some (ftype f)\<rparr>, part_text = None\<rparr>"
    by (simp add: fileToGenerativePart_def base64EncodedData_falsy)
next
  assume "reader_result f = Some r \<and> r \<noteq> [] \<and> is_base64_data_url r"
  then have "base64EncodedData f = Some (after_first_comma r)"
    by (simp add: base64EncodedData_data_url)
  then show "snd (fileToGenerativePart f)
      = \<lparr>inlineData = Some \<lparr>data = Some (after_first_comma r), mimeType = Some (ftype f)\<rparr>,
         part_text = None\<rparr>"
    by (simp add: fileToGenerativePart_def)
next
  assume "reader_result f = Some r \<and> r \<noteq> []"
  then have "base64EncodedData f
         = (if comma \<in> set r
            then Some (takeWhile (\<lambda>c. c \<noteq> comma) (after_first_comma r))
            else None)"
    using base64EncodedData_string by blast
  then show "snd (fileToGenerativePart f)
      = \<lparr>inlineData =
           Some \<lparr>data = (if comma \<in> set r
                          then Some (takeWhile (\<lambda>c. c \<noteq> comma) (after_first_comma r))
                          else None),
                 mimeType = Some (ftype f)\<rparr>,
         part_text = None\<rparr>"
    by (simp only: fileToGenerativePart_def snd_conv)
qed

theorem fileToGenerativePart_data_witness:
  "snd (fileToGenerativePart unreadable_file)
   = \<lparr>inlineData = Some \<lparr>data = Some [], mimeType = Some (js ''image/png'')\<rparr>, part_text = None\<rparr>
   \<and> snd (fileToGenerativePart png_file)
   = \<lparr>inlineData = Some \<lparr>data = Some (js ''QUJD''), mimeType = Some (js ''image/png'')\<rparr>,
      part_text = None\<rparr>"
proof -
  have u: "reader_result unreadable_file = None"
    by (simp add: unreadable_file_def)
  have r: "reader_result png_file = Some (js ''data:image/png;base64,QUJD'')"
    by (simp add: png_file_def)
  have n: "js ''data:image/png;base64,QUJD'' \<noteq> []"
    by (simp add: js_def)
  have d: "is_base64_data_url (js ''data:image/png;base64,QUJD'')"
    by (simp add: is_base64_data_url_def startsWith_def after_first_comma_def
        base64_char_def js_def comma_def)
  have a: "after_first_comma (js ''data:image/png;base64,QUJD'') = js ''QUJD''"
    by (simp add: after_first_comma_def js_def comma_def)
  have t: "ftype unreadable_file = js ''image/png''" "ftype png_file = js ''image/png''"
    by (simp_all add: unreadable_file_def png_file_def)
  show ?thesis
    using fileToGenerativePart_data [where f = unreadable_file]
      fileToGenerativePart_data [where f = png_file
        and r = "js ''data:image/png;base64,QUJD''"]
      u r n d
    by (simp only: a t simp_thms)
qed

section \<open>Properties of processImage\<close>

lemma processImage_no_key:
  "falsy (API_KEY e) \<Longrightarrow> processImage e p orig bg = ([], Inl (Error api_key_message))"
  by (simp add: processImage_def)

lemma processImage_with_key:
  "\<not> falsy (API_KEY e) \<Longrightarrow>
   processImage e p orig bg
   = (ReadAsDataURL orig # (case bg of None \<Rightarrow> [] | Some b \<Rightarrow> [ReadAsDataURL b])
        @ [CallGenerateContent (the_request p orig bg)],
      case generateContent e (the_request p orig bg) of
        Inl err \<Rightarrow> Inl err
      | Inr response \<Rightarrow>
          scan_parts (undefined_read_message e) (response_parts response))"
  by (cases bg) (simp_all add: processImage_def fileToGenerativePart_def the_request_def Let_def)

lemma processImage_requests:
  "requests_of (fst (processImage e p orig bg))
   = (if falsy (API_KEY e) then [] else [the_request p orig bg])"
  by (cases bg) (simp_all add: processImage_no_key processImage_with_key)

lemma scan_parts_skip:
  "\<forall>q \<in> set before. \<not> is_image_part q \<and> \<not> lacks_mimeType q \<Longrightarrow>
   scan_parts tm (before @ rest) = scan_parts tm rest"
  by (induction before)
    (auto simp: is_image_part_def lacks_mimeType_def split: option.splits)

lemma scan_parts_none:
  "\<forall>q \<in> set ps. \<not> is_image_part q \<and> \<not> lacks_mimeType q \<Longrightarrow>
   scan_parts tm ps = Inl (Error no_image_message)"
  using scan_parts_skip [of ps tm "[]"] by simp

lemma scan_parts_hit:
  "inlineData q = Some b \<Longrightarrow> mimeType b = Some m \<Longrightarrow> startsWith m (js ''image/'') \<Longrightarrow>
   scan_parts tm (q # rest) = Inr (data_uri b)"
  by simp

lemma scan_parts_fault:
  "lacks_mimeType q \<Longrightarrow> scan_parts tm (q # rest) = Inl (TypeError tm)"
  by (cases "inlineData q") (auto simp: lacks_mimeType_def)

text \<open>
  C9. A call of processImage made while API_KEY is unset or empty throws the error
  "API_KEY environment variable not set" with no effect before it: no file is read or
  encoded and no request is issued.
\<close>

theorem processImage_without_api_key:
  "API_KEY e = None \<or> API_KEY e = Some [] \<Longrightarrow>
   processImage e p orig bg
   = ([], Inl (Error (js ''API_KEY environment variable not set'')))"
  by (auto simp: processImage_def falsy_def api_key_message_def)

theorem processImage_without_api_key_witness:
  "API_KEY env_without_key = None
   \<and> processImage env_without_key (js ''make it blue'') png_file (Some jpeg_file)
     = ([], Inl (Error (js ''API_KEY environment variable not set'')))"
proof -
  have k: "API_KEY env_without_key = None" by (simp add: env_without_key_def)
  then have "API_KEY env_without_key = None \<or> API_KEY env_without_key = Some []" by simp
  from processImage_without_api_key [OF this] k show ?thesis by simp
qed

text \<open>
  C7. There is no retry. One call of processImage issues the generateContent request
  at most once: never when API_KEY is unset or empty, exactly once otherwise, whatever
  the API answers (a rejection, a response without an image, a response with one): the
  request is the last effect of the call, and the effects of the call do not depend on
  the API's answer.
\<close>

theorem processImage_single_request:
  "length (requests_of (fst (processImage e p orig bg)))
   = (if API_KEY e = None \<or> API_KEY e = Some [] then 0 else 1)
   \<and> length (requests_of (fst (processImage e p orig bg))) \<le> 1
   \<and> length (filter is_request (fst (processImage e p orig bg))) \<le> 1
   \<and> (\<forall>fx request fx'.
         fst (processImage e p orig bg) = fx @ CallGenerateContent request # fx'
         \<longrightarrow> fx' = [])
   \<and> (\<forall>api. fst (processImage (e\<lparr>generateContent := api\<rparr>) p orig bg)
              = fst (processImage e p orig bg))"
proof -
  have f: "falsy (API_KEY e) = (API_KEY e = None \<or> API_KEY e = Some [])"
    by (simp add: falsy_def split: option.splits)
  have a: "fst (processImage (e\<lparr>generateContent := api\<rparr>) p orig bg)
           = fst (processImage e p orig bg)" for api
    by (cases "falsy (API_KEY e)") (simp_all add: processImage_no_key processImage_with_key)
  show ?thesis
  proof (cases "falsy (API_KEY e)")
    case True
    then show ?thesis using f a by (simp add: processImage_no_key)
  next
    case False
    have "fx' = []"
      if "ReadAsDataURL orig # (case bg of None \<Rightarrow> [] | Some b \<Rightarrow> [ReadAsDataURL b])
            @ [CallGenerateContent (the_request p orig bg)]
          = fx @ CallGenerateContent request # fx'" for fx request fx'
    proof (cases bg)
      case None
      with that show ?thesis
        by (cases fx; cases "tl fx") (auto simp: Cons_eq_append_conv)
    next
      case (Some b)
      with that show ?thesis
        by (cases fx; cases "tl fx"; cases "tl (tl fx)") (auto simp: Cons_eq_append_conv)
    qed
    with False f a show ?thesis
      by (cases bg) (simp_all add: processImage_with_key)
  qed
qed

lemma env_with_key_truthy: "\<not> falsy (API_KEY (env_with_key answer))"
  by (simp add: env_with_key_def falsy_def js_def)

theorem processImage_single_request_witness:
  "fst (processImage (env_with_key (Inl (Error (js ''quota exceeded''))))
          (js ''make it blue'') png_file None)
   = [ReadAsDataURL png_file]
     @ CallGenerateContent (the_request (js ''make it blue'') png_file None) # []
   \<and> length (requests_of (fst (processImage
          (env_with_key (Inl (Error (js ''quota exceeded''))))
          (js ''make it blue'') png_file None))) = 1"
proof -
  let ?e = "env_with_key (Inl (Error (js ''quota exceeded'')))"
  have k: "\<not> (API_KEY ?e = None \<or> API_KEY ?e = Some [])"
    by (simp add: env_with_key_def js_def)
  have fx: "fst (processImage ?e (js ''make it blue'') png_file None)
     = [ReadAsDataURL png_file]
       @ CallGenerateContent (the_request (js ''make it blue'') png_file None) # []"
    by (simp add: processImage_with_key env_with_key_truthy)
  from processImage_single_request [of ?e "js ''make it blue''" png_file None] k
  have "length (requests_of (fst (processImage ?e (js ''make it blue'') png_file None))) = 1"
    by simp
  with fx show ?thesis by simp
qed

text \<open>
  C2. When processImage sends its request, the parts of the payload are the encoded
  originalImage first, then the encoded backgroundImage if there is one, then one text
  part equal to the prompt, last: one text part, and one inline image part without a
  background image, two with one.
\<close>

theorem processImage_payload:
  assumes "\<not> falsy (API_KEY e)"
  shows "\<exists>ps. map (\<lambda>request. parts (contents request))
                (requests_of (fst (processImage e p orig bg))) = [Some ps]
          \<and> ps = snd (fileToGenerativePart orig)
                 # (case bg of None \<Rightarrow> [] | Some b \<Rightarrow> [snd (fileToGenerativePart b)])
                 @ [\<lparr>inlineData = None, part_text = Some p\<rparr>]
          \<and> last ps = \<lparr>inlineData = None, part_text = Some p\<rparr>
          \<and> length (filter (\<lambda>q. part_text q \<noteq> None) ps) = 1
          \<and> length (filter (\<lambda>q. inlineData q \<noteq> None) ps)
              = (case bg of None \<Rightarrow> 1 | Some b \<Rightarrow> 2)
          \<and> length ps = (case bg of None \<Rightarrow> 2 | Some b \<Rightarrow> 3)"
  using assms
  by (cases bg)
    (simp_all add: processImage_requests the_request_def fileToGenerativePart_def)

theorem processImage_payload_witness:
  "\<not> falsy (API_KEY (env_with_key (Inr (response_of_parts []))))
   \<and> map (\<lambda>request. parts (contents request))
        (requests_of (fst (processImage (env_with_key (Inr (response_of_parts [])))
           (js ''swap'') png_file (Some jpeg_file))))
     = [Some [\<lparr>inlineData = Some \<lparr>data = Some (js ''QUJD''), mimeType = Some (js ''image/png'')\<rparr>,
               part_text = None\<rparr>,
              \<lparr>inlineData = Some \<lparr>data = Some (js ''REVG''), mimeType = Some (js ''image/jpeg'')\<rparr>,
               part_text = None\<rparr>,
              \<lparr>inlineData = None, part_text = Some (js ''swap'')\<rparr>]]"
proof -
  let ?e = "env_with_key (Inr (response_of_parts []))"
  have k: "\<not> falsy (API_KEY ?e)" by (rule env_with_key_truthy)
  have a: "snd (fileToGenerativePart png_file)
      = \<lparr>inlineData = Some \<lparr>data = Some (js ''QUJD''), mimeType = Some (js ''image/png'')\<rparr>,
         part_text = None\<rparr>"
    by (simp add: fileToGenerativePart_def base64EncodedData_def png_file_def falsy_def
        at_index_def js_def comma_def)
  have b: "snd (fileToGenerativePart jpeg_file)
      = \<lparr>inlineData = Some \<lparr>data = Some (js ''REVG''), mimeType = Some (js ''image/jpeg'')\<rparr>,
         part_text = None\<rparr>"
    by (simp add: fileToGenerativePart_def base64EncodedData_def jpeg_file_def falsy_def
        at_index_def js_def comma_def)
  from processImage_payload [OF k, of "js ''swap''" png_file "Some jpeg_file"]
  show ?thesis using k by (auto simp: a b)
qed

lemma processImage_answer:
  assumes "\<not> falsy (API_KEY e)"
      and "requests_of (fst (processImage e p orig bg)) = [request]"
      and "generateContent e request = Inr response"
  shows "snd (processImage e p orig bg)
         = scan_parts (undefined_read_message e) (response_parts response)"
proof -
  from assms(1,2) have "request = the_request p orig bg"
    by (simp add: processImage_requests)
  with assms(1,3) show ?thesis by (simp add: processImage_with_key)
qed

lemma requests_env_with_key:
  "requests_of (fst (processImage (env_with_key answer) p orig bg)) = [the_request p orig bg]"
  by (simp add: processImage_requests env_with_key_truthy)

lemma generateContent_env_with_key:
  "generateContent (env_with_key answer) request = answer"
  by (simp add: env_with_key_def answering_def)

text \<open>
  What the scan does on a response in which every part that has inlineData, up to the
  first image part, has a mimeType: it returns the data URI built from the first part
  whose mimeType starts with "image/", skipping the parts before it, and throws the
  no-image error when there is no such part. A part that has inlineData without a
  mimeType, met before any image part, ends the scan with the engine's TypeError.
\<close>

lemma processImage_scan:
  assumes "\<not> falsy (API_KEY e)"
      and "requests_of (fst (processImage e p orig bg)) = [request]"
      and "generateContent e request = Inr response"
  shows "(response_parts response = before @ q # rest
          \<and> (\<forall>x \<in> set before. \<not> is_image_part x \<and> \<not> lacks_mimeType x)
          \<and> inlineData q = Some b \<and> mimeType b = Some m \<and> startsWith m (js ''image/'')
          \<longrightarrow> snd (processImage e p orig bg)
              = Inr (js ''data:'' @ m @ js '';base64,'' @ str_of (data b)))
       \<and> ((\<forall>x \<in> set (response_parts response). \<not> is_image_part x \<and> \<not> lacks_mimeType x)
          \<longrightarrow> snd (processImage e p orig bg) = Inl (Error no_image_message))
       \<and> (response_parts response = before @ q # rest
          \<and> (\<forall>x \<in> set before. \<not> is_image_part x \<and> \<not> lacks_mimeType x)
          \<and> lacks_mimeType q
          \<longrightarrow> snd (processImage e p orig bg) = Inl (TypeError (undefined_read_message e)))"
proof (intro conjI impI)
  assume a: "response_parts response = before @ q # rest
          \<and> (\<forall>x \<in> set before. \<not> is_image_part x \<and> \<not> lacks_mimeType x)
          \<and> inlineData q = Some b \<and> mimeType b = Some m \<and> startsWith m (js ''image/'')"
  then have "scan_parts (undefined_read_message e) (response_parts response)
             = scan_parts (undefined_read_message e) (q # rest)"
    by (simp add: scan_parts_skip)
  also have "\<dots> = Inr (data_uri b)" using a by (simp add: scan_parts_hit)
  finally show "snd (processImage e p orig bg)
              = Inr (js ''data:'' @ m @ js '';base64,'' @ str_of (data b))"
    using a by (simp add: processImage_answer [OF assms] data_uri_def str_of_def)
next
  assume "\<forall>x \<in> set (response_parts response). \<not> is_image_part x \<and> \<not> lacks_mimeType x"
  then show "snd (processImage e p orig bg) = Inl (Error no_image_message)"
    by (simp add: processImage_answer [OF assms] scan_parts_none)
next
  assume a: "response_parts response = before @ q # rest
          \<and> (\<forall>x \<in> set before. \<not> is_image_part x \<and> \<not> lacks_mimeType x)
          \<and> lacks_mimeType q"
  then have "scan_parts (undefined_read_message e) (response_parts response)
             = scan_parts (undefined_read_message e) (q # rest)"
    by (simp add: scan_parts_skip)
  also from a have "\<dots> = Inl (TypeError (undefined_read_message e))"
    by (intro scan_parts_fault) simp
  finally show "snd (processImage e p orig bg) = Inl (TypeError (undefined_read_message e))"
    by (simp add: processImage_answer [OF assms])
qed

lemma processImage_scan_example:
  "snd (processImage
          (env_with_key (Inr (response_of_parts [text_only_part, audio_part, png_part, jpeg_part])))
          (js ''make it blue'') png_file None)
   = Inr (js ''data:image/png;base64,QUJD'')
   \<and> snd (processImage (env_with_key (Inr (response_of_parts [text_only_part, audio_part])))
          (js ''make it blue'') png_file None)
   = Inl (Error no_image_message)"
proof -
  let ?r1 = "response_of_parts [text_only_part, audio_part, png_part, jpeg_part]"
  let ?r2 = "response_of_parts [text_only_part, audio_part]"
  let ?b = "\<lparr>data = Some (js ''QUJD''), mimeType = Some (js ''image/png'')\<rparr>"
  have n: "\<not> is_image_part text_only_part" "\<not> is_image_part audio_part"
    "\<not> lacks_mimeType text_only_part" "\<not> lacks_mimeType audio_part"
    by (simp_all add: is_image_part_def lacks_mimeType_def text_only_part_def
        audio_part_def startsWith_def js_def)
  have p1: "response_parts ?r1 = [text_only_part, audio_part] @ png_part # [jpeg_part]"
    by (simp add: response_parts_def response_of_parts_def)
  have p2: "response_parts ?r2 = [text_only_part, audio_part]"
    by (simp add: response_parts_def response_of_parts_def)
  have i: "inlineData png_part = Some ?b" by (simp add: png_part_def)
  have m: "startsWith (js ''image/png'') (js ''image/'')" by (simp add: startsWith_def js_def)
  have u: "js ''data:'' @ js ''image/png'' @ js '';base64,'' @ str_of (data ?b)
           = js ''data:image/png;base64,QUJD''"
    by (simp add: str_of_def js_def)
  have "snd (processImage (env_with_key (Inr ?r1)) (js ''make it blue'') png_file None)
        = Inr (js ''data:'' @ js ''image/png'' @ js '';base64,'' @ str_of (data ?b))"
    using processImage_scan [OF env_with_key_truthy requests_env_with_key
        generateContent_env_with_key, of ?r1 "[text_only_part, audio_part]" png_part
        "[jpeg_part]" ?b "js ''image/png''" "js ''make it blue''" png_file None]
      n p1 i m by simp
  moreover
  have "snd (processImage (env_with_key (Inr ?r2)) (js ''make it blue'') png_file None)
        = Inl (Error no_image_message)"
    using processImage_scan [OF env_with_key_truthy requests_env_with_key
        generateContent_env_with_key, of ?r2 _ _ _ _ _ "js ''make it blue''" png_file None]
      n p2 by simp
  ultimately show ?thesis by (simp only: u simp_thms)
qed

text \<open>
  C1. The scan does not skip every part before the first image part. On a response
  whose parts are a part that has inlineData without a mimeType, which is no image
  part, followed by a PNG part, processImage does not return the PNG's data URI: the
  unguarded call of startsWith on the absent mimeType throws the engine's TypeError.
\<close>

theorem processImage_faults_before_image:
  "\<not> is_image_part untyped_part
   \<and> is_image_part png_part
   \<and> response_parts (response_of_parts [untyped_part, png_part]) = [untyped_part, png_part]
   \<and> snd (processImage (env_with_key (Inr (response_of_parts [untyped_part, png_part])))
          (js ''make it blue'') png_file None)
     = Inl (TypeError (js ''part.inlineData.mimeType is undefined''))"
proof -
  let ?r = "response_of_parts [untyped_part, png_part]"
  have 1: "\<not> is_image_part untyped_part"
    by (simp add: is_image_part_def untyped_part_def)
  have 2: "is_image_part png_part"
    by (simp add: is_image_part_def png_part_def startsWith_def js_def)
  have 3: "response_parts ?r = [untyped_part, png_part]"
    by (simp add: response_parts_def response_of_parts_def)
  have "lacks_mimeType untyped_part"
    by (simp add: lacks_mimeType_def untyped_part_def)
  then have "scan_parts tm (response_parts ?r) = Inl (TypeError tm)" for tm
    by (simp only: 3 scan_parts_fault)
  moreover have "undefined_read_message (env_with_key (Inr ?r))
                 = js ''part.inlineData.mimeType is undefined''"
    by (simp add: env_with_key_def)
  ultimately
  have "snd (processImage (env_with_key (Inr ?r)) (js ''make it blue'') png_file None)
        = Inl (TypeError (js ''part.inlineData.mimeType is undefined''))"
    by (simp only: processImage_answer [OF env_with_key_truthy requests_env_with_key
          generateContent_env_with_key])
  with 1 2 3 show ?thesis by (simp only: simp_thms)
qed

text \<open>
  C8. A response in which candidates is absent or empty, or in which the first
  candidate has no content or its content has no parts, has no parts to scan, and
  processImage throws its no-image error.
\<close>

theorem processImage_missing_fields:
  assumes "\<not> falsy (API_KEY e)"
      and "requests_of (fst (processImage e p orig bg)) = [request]"
      and "generateContent e request = Inr response"
      and "candidates response = None \<or> candidates response = Some []
           \<or> (\<exists>c cs. candidates response = Some (c # cs)
                  \<and> (content c = None \<or> (\<exists>ct. content c = Some ct \<and> parts ct = None)))"
  shows "response_parts response = []
         \<and> snd (processImage e p orig bg) = Inl (Error no_image_message)"
proof -
  from assms(4) have "response_parts response = []"
    by (auto simp: response_parts_def)
  then show ?thesis by (simp add: processImage_answer [OF assms(1-3)])
qed

theorem processImage_missing_fields_witness:
  "snd (processImage (env_with_key (Inr \<lparr>candidates = None\<rparr>))
          (js ''make it blue'') png_file None) = Inl (Error no_image_message)
   \<and> snd (processImage (env_with_key (Inr \<lparr>candidates = Some []\<rparr>))
          (js ''make it blue'') png_file None) = Inl (Error no_image_message)
   \<and> snd (processImage (env_with_key (Inr \<lparr>candidates = Some [\<lparr>content = None\<rparr>]\<rparr>))
          (js ''make it blue'') png_file None) = Inl (Error no_image_message)
   \<and> snd (processImage
          (env_with_key (Inr \<lparr>candidates = Some [\<lparr>content = Some \<lparr>parts = None\<rparr>\<rparr>]\<rparr>))
          (js ''make it blue'') png_file None) = Inl (Error no_image_message)"
  using
    processImage_missing_fields [OF env_with_key_truthy requests_env_with_key
      generateContent_env_with_key, of "\<lparr>candidates = None\<rparr>"]
    processImage_missing_fields [OF env_with_key_truthy requests_env_with_key
      generateContent_env_with_key, of "\<lparr>candidates = Some []\<rparr>"]
    processImage_missing_fields [OF env_with_key_truthy requests_env_with_key
      generateContent_env_with_key, of "\<lparr>candidates = Some [\<lparr>content = None\<rparr>]\<rparr>"]
    processImage_missing_fields [OF env_with_key_truthy requests_env_with_key
      generateContent_env_with_key,
      of "\<lparr>candidates = Some [\<lparr>content = Some \<lparr>parts = None\<rparr>\<rparr>]\<rparr>"]
  by simp

section \<open>Properties of handleProcessImage and of the component\<close>


lemma handle_start_call:
  assumes "originalImage s = Some orig"
  shows "snd (handle_start s)
         = (case mode s of
              TRANSPARENT \<Rightarrow> Some (transparent_prompt, orig, None)
            | AI_BACKGROUND \<Rightarrow>
                if trim (prompt s) = [] then None
                else Some (ai_background_prompt (prompt s), orig, None)
            | CUSTOM_BACKGROUND \<Rightarrow>
                (case backgroundImage s of
                   None \<Rightarrow> None
                 | Some bg \<Rightarrow> Some (custom_background_prompt, orig, Some bg)))"
  using assms
  by (simp add: handle_start_def Let_def split: OperationMode.splits option.splits)

lemma handle_start_state:
  assumes "originalImage s = Some orig"
  shows "fst (handle_start s)
         = (case snd (handle_start s) of
              Some c \<Rightarrow> s\<lparr>isLoading := True, error := None, resultImage := None\<rparr>
            | None \<Rightarrow>
                s\<lparr>isLoading := False,
                  error := Some (if mode s = AI_BACKGROUND then no_prompt_message
                                 else no_background_message),
                  resultImage := None\<rparr>)"
  using assms
  by (simp add: handle_start_def Let_def split: OperationMode.splits option.splits)

lemma handleProcessImage_effects:
  "snd (handleProcessImage e s)
   = (case snd (handle_start s) of
        None \<Rightarrow> []
      | Some (p, orig, bg) \<Rightarrow> fst (processImage e p orig bg))"
  by (simp add: handleProcessImage_def split: prod.splits option.splits)

lemma handleProcessImage_state:
  "fst (handleProcessImage e s)
   = (case snd (handle_start s) of
        None \<Rightarrow> fst (handle_start s)
      | Some (p, orig, bg) \<Rightarrow>
          handle_settle (snd (processImage e p orig bg)) (fst (handle_start s)))"
  by (simp add: handleProcessImage_def split: prod.splits option.splits)

text \<open>
  C4. There are three modes. When handleProcessImage runs with an original image
  present: in TRANSPARENT mode it calls processImage with the fixed isolate-subject
  prompt and no background image; in AI_BACKGROUND mode it makes no call when the
  prompt is empty after trimming, and otherwise calls with a prompt that embeds the
  user's text and no background image; in CUSTOM_BACKGROUND mode it makes no call when
  no background image was uploaded, and otherwise passes that image as the second
  image. Outside CUSTOM_BACKGROUND mode no background image is passed, uploaded or not.
  The effects of the run are those of the call it makes.
\<close>

theorem handleProcessImage_modes:
  assumes "originalImage s = Some orig"
  shows "(mode s = TRANSPARENT \<or> mode s = AI_BACKGROUND \<or> mode s = CUSTOM_BACKGROUND)
       \<and> (mode s = TRANSPARENT \<longrightarrow>
            snd (handle_start s) = Some (transparent_prompt, orig, None))
       \<and> (mode s = AI_BACKGROUND \<longrightarrow>
            snd (handle_start s)
            = (if trim (prompt s) = [] then None
               else Some (js ''Replace the background of the image with the following scene: ''
                          @ prompt s
                          @ js ''. Keep the main subject from the original image.'',
                          orig, None)))
       \<and> (mode s = CUSTOM_BACKGROUND \<longrightarrow>
            snd (handle_start s)
            = (case backgroundImage s of
                 None \<Rightarrow> None
               | Some bg \<Rightarrow> Some (custom_background_prompt, orig, Some bg)))
       \<and> (mode s \<noteq> CUSTOM_BACKGROUND \<longrightarrow>
            (\<forall>p orig' bg. snd (handle_start s) = Some (p, orig', bg) \<longrightarrow> bg = None))
       \<and> snd (handleProcessImage e s)
         = (case snd (handle_start s) of
              None \<Rightarrow> []
            | Some (p, orig', bg) \<Rightarrow> fst (processImage e p orig' bg))"
proof -
  have m: "mode s = TRANSPARENT \<or> mode s = AI_BACKGROUND \<or> mode s = CUSTOM_BACKGROUND"
    by (cases "mode s") simp_all
  have c: "mode s \<noteq> CUSTOM_BACKGROUND \<longrightarrow>
            (\<forall>p orig' bg. snd (handle_start s) = Some (p, orig', bg) \<longrightarrow> bg = None)"
    by (cases "mode s") (auto simp: handle_start_call [OF assms] split: if_splits)
  show ?thesis
    using m c
    by (simp add: handle_start_call [OF assms] handleProcessImage_effects
        ai_background_prompt_def)
qed

lemma trim_blank: "trim (js ''  '') = []"
  by (simp add: trim_def js_whitespace_def js_def)

lemma trim_beach: "trim (js '' a beach '') \<noteq> []"
  by (simp add: trim_def js_whitespace_def js_def)

theorem handleProcessImage_modes_witness:
  "snd (handle_start (ready_state\<lparr>backgroundImage := Some jpeg_file\<rparr>))
   = Some (transparent_prompt, png_file, None)
   \<and> snd (handle_start (ready_state\<lparr>mode := AI_BACKGROUND, backgroundImage := Some jpeg_file,
                                     prompt := js ''  ''\<rparr>)) = None
   \<and> snd (handle_start (ready_state\<lparr>mode := AI_BACKGROUND, backgroundImage := Some jpeg_file,
                                     prompt := js '' a beach ''\<rparr>))
     = Some (js ''Replace the background of the image with the following scene: ''
             @ js '' a beach '' @ js ''. Keep the main subject from the original image.'',
             png_file, None)
   \<and> snd (handle_start (ready_state\<lparr>mode := CUSTOM_BACKGROUND\<rparr>)) = None
   \<and> snd (handle_start (ready_state\<lparr>mode := CUSTOM_BACKGROUND,
                                     backgroundImage := Some jpeg_file\<rparr>))
     = Some (custom_background_prompt, png_file, Some jpeg_file)"
proof -
  let ?e = env_without_key
  have 1: "snd (handle_start (ready_state\<lparr>backgroundImage := Some jpeg_file\<rparr>))
           = Some (transparent_prompt, png_file, None)"
    using handleProcessImage_modes
      [of "ready_state\<lparr>backgroundImage := Some jpeg_file\<rparr>" png_file ?e]
    by (simp add: ready_state_def initial_state_def)
  have 2: "snd (handle_start (ready_state\<lparr>mode := AI_BACKGROUND,
             backgroundImage := Some jpeg_file, prompt := js ''  ''\<rparr>)) = None"
    using handleProcessImage_modes
      [of "ready_state\<lparr>mode := AI_BACKGROUND, backgroundImage := Some jpeg_file,
             prompt := js ''  ''\<rparr>" png_file ?e]
    by (simp add: ready_state_def initial_state_def trim_blank)
  have 3: "snd (handle_start (ready_state\<lparr>mode := AI_BACKGROUND,
             backgroundImage := Some jpeg_file, prompt := js '' a beach ''\<rparr>))
     = Some (js ''Replace the background of the image with the following scene: ''
             @ js '' a beach '' @ js ''. Keep the main subject from the original image.'',
             png_file, None)"
    using handleProcessImage_modes
      [of "ready_state\<lparr>mode := AI_BACKGROUND, backgroundImage := Some jpeg_file,
             prompt := js '' a beach ''\<rparr>" png_file ?e]
    by (simp add: ready_state_def initial_state_def trim_beach)
  have 4: "snd (handle_start (ready_state\<lparr>mode := CUSTOM_BACKGROUND\<rparr>)) = None"
    using handleProcessImage_modes [of "ready_state\<lparr>mode := CUSTOM_BACKGROUND\<rparr>" png_file ?e]
    by (simp add: ready_state_def initial_state_def)
  have 5: "snd (handle_start (ready_state\<lparr>mode := CUSTOM_BACKGROUND,
             backgroundImage := Some jpeg_file\<rparr>))
     = Some (custom_background_prompt, png_file, Some jpeg_file)"
    using handleProcessImage_modes
      [of "ready_state\<lparr>mode := CUSTOM_BACKGROUND, backgroundImage := Some jpeg_file\<rparr>"
        png_file ?e]
    by (simp add: ready_state_def initial_state_def)
  from 1 2 3 4 5 show ?thesis by (simp only: simp_thms)
qed

lemma handle_settle_rejected:
  "handle_settle (Inl err) st = st\<lparr>error := Some (shown_message err), isLoading := False\<rparr>"
  by (simp add: handle_settle_def)

lemma handle_start_ready:
  "handle_start ready_state
   = (ready_state\<lparr>isLoading := True, error := None, resultImage := None\<rparr>,
      Some (transparent_prompt, png_file, None))"
  by (simp add: handle_start_def ready_state_def initial_state_def)

lemma processImage_rejecting_env:
  "snd (processImage (env_with_key (Inl err)) p orig bg) = Inl err"
  by (simp add: processImage_with_key env_with_key_truthy generateContent_env_with_key)

lemma handle_start_loading:
  assumes "originalImage s \<noteq> None"
  shows "isLoading (fst (handle_start s)) = (snd (handle_start s) \<noteq> None)"
proof -
  from assms obtain orig where o: "originalImage s = Some orig" by auto
  show ?thesis
    by (cases "snd (handle_start s)") (simp_all add: handle_start_state [OF o])
qed

lemma isLoading_handle_settle: "isLoading (handle_settle r st) = False"
  by (cases r) (simp_all add: handle_settle_def)

lemma step_single_flight:
  assumes "single_flight u" and "step e ev u = Some u'"
  shows "single_flight u'"
proof (cases ev)
  case ClickProcess
  with assms(2) have en: "\<not> isProcessButtonDisabled (view u)"
    by (auto split: if_splits)
  then have o: "originalImage (view u) \<noteq> None" and l: "\<not> isLoading (view u)"
    by (simp_all add: isProcessButtonDisabled_def)
  from l assms(1) have empty: "in_flight u = []" by (simp add: single_flight_def)
  from assms(2) ClickProcess en
  have u': "u' = \<lparr>view = fst (handle_start (view u)),
                  in_flight = in_flight u
                    @ (case snd (handle_start (view u)) of None \<Rightarrow> [] | Some x \<Rightarrow> [x])\<rparr>"
    by (simp split: prod.splits)
  from o obtain orig where "originalImage (view u) = Some orig" by auto
  then have "resultImage (fst (handle_start (view u))) = None"
    by (cases "snd (handle_start (view u))") (simp_all add: handle_start_state)
  then show ?thesis
    using handle_start_loading [OF o] empty
    by (cases "snd (handle_start (view u))") (simp_all add: u' single_flight_def)
next
  case (Settle i)
  with assms(2) have i: "i < length (in_flight u)" by (auto split: if_splits)
  with assms(1) have "i = 0" and "length (in_flight u) = 1"
    by (simp_all add: single_flight_def)
  then obtain c where c: "in_flight u = [c]" by (cases "in_flight u") auto
  with assms(2) Settle \<open>i = 0\<close> show ?thesis
    by (auto simp: single_flight_def isLoading_handle_settle split: prod.splits)
qed (use assms in \<open>auto simp: single_flight_def split: if_splits\<close>)

lemma run_single_flight:
  "single_flight u \<Longrightarrow> run e evs u = Some u' \<Longrightarrow> single_flight u'"
proof (induction evs arbitrary: u)
  case Nil
  then show ?case by simp
next
  case (Cons ev evs)
  then show ?case
    by (auto split: option.splits dest: step_single_flight)
qed

lemma single_flight_initial: "single_flight initial_ui"
  by (simp add: single_flight_def initial_ui_def initial_state_def)

lemma step_Settle_not_loading:
  assumes "step e (Settle i) u = Some u'"
  shows "\<not> isLoading (view u')"
proof -
  from assms have i: "i < length (in_flight u)" by (simp split: if_splits)
  obtain p orig bg where c: "in_flight u ! i = (p, orig, bg)"
    by (cases "in_flight u ! i") auto
  from assms i c
  have "u' = \<lparr>view = handle_settle (snd (processImage e p orig bg)) (view u),
                in_flight = take i (in_flight u) @ drop (Suc i) (in_flight u)\<rparr>"
    by simp
  then show ?thesis by (simp add: isLoading_handle_settle)
qed

text \<open>
  C6. In every state the component can reach, at most one call of processImage is in
  flight, and the loading flag is true exactly while one is. While the flag is true the
  process button is disabled and a click on it starts nothing, and when a call settles
  no call is left in flight and the flag is false: a second call cannot start before
  the first has settled and reset the flag.
\<close>

theorem single_request_in_flight:
  assumes "run e evs initial_ui = Some u"
  shows "length (in_flight u) \<le> 1
       \<and> isLoading (view u) = (in_flight u \<noteq> [])
       \<and> (isLoading (view u) \<longrightarrow>
            isProcessButtonDisabled (view u) \<and> step e ClickProcess u = None)
       \<and> (\<forall>i u'. step e (Settle i) u = Some u' \<longrightarrow>
            in_flight u' = [] \<and> \<not> isLoading (view u'))"
proof -
  from run_single_flight [OF single_flight_initial assms]
  have sf: "single_flight u" .
  have 1: "length (in_flight u) \<le> 1" and 2: "isLoading (view u) = (in_flight u \<noteq> [])"
    using sf by (simp_all add: single_flight_def)
  have 3: "isLoading (view u) \<longrightarrow>
            isProcessButtonDisabled (view u) \<and> step e ClickProcess u = None"
    by (simp add: isProcessButtonDisabled_def)
  have 4: "\<forall>i u'. step e (Settle i) u = Some u' \<longrightarrow>
            in_flight u' = [] \<and> \<not> isLoading (view u')"
  proof (intro allI impI)
    fix i u'
    assume st: "step e (Settle i) u = Some u'"
    with sf have "single_flight u'" by (rule step_single_flight)
    moreover from st have "\<not> isLoading (view u')" by (rule step_Settle_not_loading)
    ultimately show "in_flight u' = [] \<and> \<not> isLoading (view u')"
      by (simp add: single_flight_def)
  qed
  from 1 2 3 4 show ?thesis by blast
qed

lemma run_to_loading_ui:
  "run e [UploadOriginal png_file, ClickProcess] initial_ui = Some loading_ui"
  by (simp add: initial_ui_def isProcessButtonDisabled_def initial_state_def
      handle_start_def loading_ui_def ready_state_def)

theorem single_request_in_flight_witness:
  "run env_without_key [UploadOriginal png_file, ClickProcess] initial_ui = Some loading_ui
   \<and> in_flight loading_ui = [(transparent_prompt, png_file, None)]
   \<and> isLoading (view loading_ui)
   \<and> isProcessButtonDisabled (view loading_ui)
   \<and> step env_without_key ClickProcess loading_ui = None
   \<and> (\<exists>u'. step env_without_key (Settle 0) loading_ui = Some u'
          \<and> in_flight u' = [] \<and> \<not> isLoading (view u'))"
proof -
  have l: "isLoading (view loading_ui)" by (simp add: loading_ui_def)
  have f: "in_flight loading_ui = [(transparent_prompt, png_file, None)]"
    by (simp add: loading_ui_def)
  have r: "run env_without_key [UploadOriginal png_file, ClickProcess] initial_ui
           = Some loading_ui"
    by (rule run_to_loading_ui)
  obtain u' where s: "step env_without_key (Settle 0) loading_ui = Some u'"
    by (simp add: f)
  from single_request_in_flight [OF r] l s
  have "isProcessButtonDisabled (view loading_ui)
        \<and> step env_without_key ClickProcess loading_ui = None
        \<and> in_flight u' = [] \<and> \<not> isLoading (view u')"
    by blast
  with r l f s show ?thesis by blast
qed

text \<open>
  C5. When processImage rejects, the exception is mapped to a user-facing message: the
  error state is set to the exception's message, or to the fixed fallback when the
  message is empty, the result image is null and the loading flag is false afterwards.
  This holds for a run of handleProcessImage taken as a whole, and for the settling of
  the call in any state the component can reach. The handler of the rejection itself
  sets the error, clears the loading flag and leaves the result image as it is.
\<close>

theorem handleProcessImage_rejection:
  assumes "snd (processImage e p orig bg) = Inl err"
  shows "(handle_start s = (s1, Some (p, orig, bg)) \<longrightarrow>
            error (fst (handleProcessImage e s))
            = Some (if message err = [] then fallback_message else message err)
            \<and> resultImage (fst (handleProcessImage e s)) = None
            \<and> isLoading (fst (handleProcessImage e s)) = False)
       \<and> (run e evs initial_ui = Some u \<and> i < length (in_flight u)
            \<and> in_flight u ! i = (p, orig, bg) \<longrightarrow>
            (\<exists>u'. step e (Settle i) u = Some u'
                  \<and> error (view u')
                    = Some (if message err = [] then fallback_message else message err)
                  \<and> resultImage (view u') = None
                  \<and> isLoading (view u') = False))
       \<and> error (handle_settle (Inl err) st)
         = Some (if message err = [] then fallback_message else message err)
       \<and> resultImage (handle_settle (Inl err) st) = resultImage st
       \<and> isLoading (handle_settle (Inl err) st) = False"
proof (intro conjI impI)
  assume a: "handle_start s = (s1, Some (p, orig, bg))"
  then obtain orig' where o: "originalImage s = Some orig'"
    by (cases "originalImage s") (auto simp: handle_start_def)
  from a have c: "snd (handle_start s) = Some (p, orig, bg)" by simp
  have r: "resultImage (fst (handle_start s)) = None"
    by (simp add: handle_start_state [OF o] c)
  show "error (fst (handleProcessImage e s))
        = Some (if message err = [] then fallback_message else message err)"
    using assms
    by (simp add: handleProcessImage_state c handle_settle_rejected shown_message_def)
  show "resultImage (fst (handleProcessImage e s)) = None"
    using assms r by (simp add: handleProcessImage_state c handle_settle_rejected)
  show "isLoading (fst (handleProcessImage e s)) = False"
    using assms by (simp add: handleProcessImage_state c handle_settle_rejected)
next
  assume a: "run e evs initial_ui = Some u \<and> i < length (in_flight u)
            \<and> in_flight u ! i = (p, orig, bg)"
  then have "single_flight u"
    using run_single_flight [OF single_flight_initial] by blast
  with a have "resultImage (view u) = None"
    by (auto simp: single_flight_def)
  with a assms show "\<exists>u'. step e (Settle i) u = Some u'
                  \<and> error (view u')
                    = Some (if message err = [] then fallback_message else message err)
                  \<and> resultImage (view u') = None
                  \<and> isLoading (view u') = False"
    by (simp add: handle_settle_rejected shown_message_def)
qed (simp_all add: handle_settle_rejected shown_message_def)

theorem handleProcessImage_rejection_witness:
  "snd (processImage (env_with_key (Inl (Error []))) transparent_prompt png_file None)
   = Inl (Error [])
   \<and> error (fst (handleProcessImage (env_with_key (Inl (Error []))) ready_state))
     = Some fallback_message
   \<and> resultImage (fst (handleProcessImage (env_with_key (Inl (Error []))) ready_state)) = None
   \<and> isLoading (fst (handleProcessImage (env_with_key (Inl (Error []))) ready_state)) = False
   \<and> (\<exists>u'. step (env_with_key (Inl (Error []))) (Settle 0) loading_ui = Some u'
          \<and> error (view u') = Some fallback_message
          \<and> resultImage (view u') = None
          \<and> isLoading (view u') = False)
   \<and> error (fst (handleProcessImage (env_with_key (Inl (Error (js ''quota exceeded''))))
                  ready_state))
     = Some (js ''quota exceeded'')"
proof -
  let ?e = "env_with_key (Inl (Error []))"
  let ?q = "env_with_key (Inl (Error (js ''quota exceeded'')))"
  have n: "js ''quota exceeded'' \<noteq> []" by (simp add: js_def)
  have r: "snd (processImage ?e transparent_prompt png_file None) = Inl (Error [])"
    by (rule processImage_rejecting_env)
  have q: "snd (processImage ?q transparent_prompt png_file None)
           = Inl (Error (js ''quota exceeded''))"
    by (rule processImage_rejecting_env)
  have l: "run ?e [UploadOriginal png_file, ClickProcess] initial_ui = Some loading_ui
           \<and> 0 < length (in_flight loading_ui)
           \<and> in_flight loading_ui ! 0 = (transparent_prompt, png_file, None)"
    using run_to_loading_ui [of ?e] by (simp add: loading_ui_def)
  from handleProcessImage_rejection [OF r, of ready_state _
      "[UploadOriginal png_file, ClickProcess]" loading_ui 0]
    handle_start_ready l
  have 1: "error (fst (handleProcessImage ?e ready_state)) = Some fallback_message
       \<and> resultImage (fst (handleProcessImage ?e ready_state)) = None
       \<and> isLoading (fst (handleProcessImage ?e ready_state)) = False
       \<and> (\<exists>u'. step ?e (Settle 0) loading_ui = Some u'
          \<and> error (view u') = Some fallback_message
          \<and> resultImage (view u') = None
          \<and> isLoading (view u') = False)"
    by simp
  from handleProcessImage_rejection [OF q, of ready_state] handle_start_ready n
  have 2: "error (fst (handleProcessImage ?q ready_state)) = Some (js ''quota exceeded'')"
    by simp
  from r 1 2 show ?thesis by blast
qed







end
